theory Spec2Isabelle
  imports Complex_Main
begin

section \<open>Strings\<close>

text \<open>
  Python strings are modelled as \<^typ>\<open>string\<close>; a character of the model stands for a
  code point below 256. \<open>lower\<close> is \<open>str.lower()\<close> on that range (the letters A-Z and the
  Latin-1 capitals move up by 32, which sets bit 5), \<open>strip\<close> is \<open>str.strip()\<close>, and
  \<open>str_in sub s\<close> is the test \<open>sub in s\<close>.
\<close>

definition lower_char :: "char \<Rightarrow> char" where
  "lower_char c =
     (let n = (of_char c :: nat)
      in if (65 \<le> n \<and> n \<le> 90) \<or> (192 \<le> n \<and> n \<le> 222 \<and> n \<noteq> 215)
         then Char (digit0 c) (digit1 c) (digit2 c) (digit3 c) (digit4 c) True (digit6 c) (digit7 c)
         else c)"

definition lower :: "string \<Rightarrow> string" where
  "lower s = map lower_char s"

definition isspace :: "char \<Rightarrow> bool" where
  "isspace c =
     (let n = (of_char c :: nat)
      in (9 \<le> n \<and> n \<le> 13) \<or> (28 \<le> n \<and> n \<le> 32) \<or> n = 133 \<or> n = 160)"

definition strip :: "string \<Rightarrow> string" where
  "strip s = rev (dropWhile isspace (rev (dropWhile isspace s)))"

fun startswith :: "string \<Rightarrow> string \<Rightarrow> bool" where
  "startswith [] s = True"
| "startswith (p # ps) [] = False"
| "startswith (p # ps) (c # cs) = (p = c \<and> startswith ps cs)"

fun str_in :: "string \<Rightarrow> string \<Rightarrow> bool" where
  "str_in sub [] = (sub = [])"
| "str_in sub (c # cs) = (startswith sub (c # cs) \<or> str_in sub cs)"

section \<open>Data model (models/file.py, models/chat.py)\<close>

text \<open>
  \<open>datetime\<close> values are clock readings. The fields \<open>id\<close>, \<open>size\<close>, \<open>status\<close> and
  \<open>error_message\<close> of \<open>FileMetadata\<close> are written \<open>fid\<close>, \<open>fsize\<close>, \<open>fstatus\<close> and
  \<open>ferror_message\<close>; \<open>IndexingProgress\<close> keeps the source's field names. Statuses and
  steps are plain strings, as in the source. A percentage is a Python float; every
  value the code assigns (0, 5, 10, 20, 30, 60, 80, 90, 95, 100) is an exact float, so
  the reals stand for them.
\<close>

type_synonym datetime = nat

record file_metadata =
  fid :: string
  filename :: string
  original_filename :: string
  fsize :: int
  content_type :: string
  upload_date :: datetime
  fstatus :: string
  ferror_message :: "string option"
  chunks_count :: "int option"
  entities_count :: "int option"
  relationships_count :: "int option"
  communities_count :: "int option"
  file_path :: string
  output_path :: "string option"

record indexing_progress =
  file_id :: string
  status :: string
  current_step :: string
  progress_percentage :: real
  estimated_remaining :: "int option"
  error_message :: "string option"
  started_at :: "datetime option"
  completed_at :: "datetime option"

datatype chat_mode = LOCAL | GLOBAL

text \<open>
  Exceptions. \<open>Exception m\<close> and \<open>HTTPException code detail\<close> are the two the source raises
  itself; the other three are what \<open>open\<close>, \<open>json.load\<close> and the pydantic constructor raise
  when a status file cannot be read back.
\<close>

datatype error =
    Exception string
  | HTTPException nat string
  | OSError
  | JSONDecodeError
  | ValidationError

section \<open>Persistent state\<close>

text \<open>
  What the bytes of a status file \<open>indexing_status_<id>.json\<close> amount to when they are read
  back: the file cannot be opened or read, it is not JSON, it is JSON that does not
  validate as an \<open>IndexingProgress\<close>, or it is the dump of a record.
\<close>

datatype status_file =
    Unreadable
  | Malformed
  | Invalid
  | Dumped indexing_progress

text \<open>
  \<open>files\<close> is the registry \<open>metadata/files.json\<close>, \<open>status_files\<close> the cache directory,
  \<open>saves\<close> the history of the records written by \<open>_save_progress\<close> (oldest first),
  \<open>tasks\<close> the pipeline runs handed to \<open>asyncio.create_task\<close>.
\<close>

record world =
  files :: "string \<rightharpoonup> file_metadata"
  status_files :: "string \<rightharpoonup> status_file"
  saves :: "indexing_progress list"
  tasks :: "(file_metadata \<times> indexing_progress) list"

subsection \<open>FileService (services/file\_service.py)\<close>

definition get_file_by_id :: "world \<Rightarrow> string \<Rightarrow> file_metadata option" where
  "get_file_by_id w doc_id = files w doc_id"

text \<open>
  \<open>update_file_status(file_id, status, **kwargs)\<close>: the keyword arguments are the
  field update \<open>kwargs\<close>. An unknown id changes nothing.
  A parameter the source calls \<open>file_id\<close> is written \<open>doc_id\<close>, the former being the field
  of \<open>IndexingProgress\<close>.
\<close>

definition update_file_status ::
  "string \<Rightarrow> string \<Rightarrow> (file_metadata \<Rightarrow> file_metadata) \<Rightarrow> world \<Rightarrow> world" where
  "update_file_status doc_id new_status kwargs w =
     (case files w doc_id of
        None \<Rightarrow> w
      | Some m \<Rightarrow> w\<lparr>files := (files w)(doc_id \<mapsto> kwargs (m\<lparr>fstatus := new_status\<rparr>))\<rparr>)"

subsection \<open>Progress tracker (services/graphrag\_service.py)\<close>

definition save_progress :: "indexing_progress \<Rightarrow> world \<Rightarrow> world" where
  "save_progress progress w =
     w\<lparr>status_files := (status_files w)(file_id progress \<mapsto> Dumped progress),
       saves := saves w @ [progress]\<rparr>"

definition update_progress ::
  "indexing_progress \<Rightarrow> string \<Rightarrow> real \<Rightarrow> world \<Rightarrow> indexing_progress \<times> world" where
  "update_progress progress step percentage w =
     (let progress' = progress\<lparr>current_step := step, progress_percentage := percentage\<rparr>
      in (progress', save_progress progress' w))"

text \<open>The body of the \<open>try\<close> of \<open>get_indexing_status\<close>: open, \<open>json.load\<close>, construct.\<close>

fun load_status_file :: "status_file \<Rightarrow> error + indexing_progress" where
  "load_status_file Unreadable = Inl OSError"
| "load_status_file Malformed = Inl JSONDecodeError"
| "load_status_file Invalid = Inl ValidationError"
| "load_status_file (Dumped progress) = Inr progress"

definition get_indexing_status :: "world \<Rightarrow> string \<Rightarrow> error + indexing_progress option" where
  "get_indexing_status w doc_id =
     (case status_files w doc_id of
        None \<Rightarrow> Inr None
      | Some f \<Rightarrow>
          (case load_status_file f of
             Inr progress \<Rightarrow> Inr (Some progress)
           | Inl e \<Rightarrow> Inr None))"

section \<open>Pipeline orchestrator (services/graphrag\_service.py)\<close>


subsection \<open>The child process and the external collaborators of one run\<close>

text \<open>
  One read of the child's standard output by the monitor: a line (its bytes decoded;
  the empty line is what \<open>readline\<close> gives at end of file), bytes whose \<open>decode\<close> raises an
  exception with the given text, or a read that timed out, with whether the process
  has exited by then. The end of the list is end of file.
\<close>

datatype read_event =
    Line string
  | Undecodable string
  | Timeout bool

record process =
  stdout_events :: "read_event list"
  return_code :: int
  stderr_text :: string

record indexing_stats =
  stat_chunks :: int
  stat_entities :: int
  stat_relationships :: int
  stat_communities :: int

text \<open>
  What the calls of the \<open>try\<close> block that leave the program give in one run; \<open>Inl m\<close> is
  an exception \<open>e\<close> with \<open>str(e) = m\<close>. \<open>artifacts_dir\<close> is \<open>None\<close> when
  \<open>output/artifacts\<close> does not exist after the run, and otherwise carries what
  \<open>_calculate_indexing_stats\<close> counts there (that function catches its own exceptions).
\<close>

record pipeline_env =
  output_dir :: string
  create_config_file :: "string + string"
  extract_text_content :: "string + string"
  write_input_file :: "string + unit"
  create_subprocess_exec :: "string + process"
  artifacts_dir :: "indexing_stats option"
  utcnow :: datetime

subsection \<open>Monitoring the child process\<close>

definition step_progress :: "string \<rightharpoonup> real" where
  "step_progress =
     [''chunking'' \<mapsto> 30, ''entity_extraction'' \<mapsto> 60,
      ''relationship_extraction'' \<mapsto> 80, ''community_detection'' \<mapsto> 90]"

text \<open>The \<open>if\<close>/\<open>elif\<close> chain on a read line: the step after the line.\<close>

definition classify_step :: "string \<Rightarrow> string \<Rightarrow> string" where
  "classify_step line_str current =
     (if str_in ''entity'' (lower line_str) then ''entity_extraction''
      else if str_in ''relationship'' (lower line_str) then ''relationship_extraction''
      else if str_in ''community'' (lower line_str) then ''community_detection''
      else current)"

fun monitor_loop ::
  "read_event list \<Rightarrow> string \<Rightarrow> indexing_progress \<Rightarrow> world
     \<Rightarrow> (string + unit) \<times> indexing_progress \<times> world" where
  "monitor_loop [] current progress w = (Inr (), progress, w)"
| "monitor_loop (Timeout exited # evs) current progress w =
     (if exited then (Inr (), progress, w) else monitor_loop evs current progress w)"
| "monitor_loop (Undecodable m # evs) current progress w = (Inl m, progress, w)"
| "monitor_loop (Line line # evs) current progress w =
     (if line = [] then (Inr (), progress, w)
      else
        let current' = classify_step (strip line) current
        in case step_progress current' of
             Some percentage \<Rightarrow>
               monitor_loop evs current'
                 (fst (update_progress progress current' percentage w))
                 (snd (update_progress progress current' percentage w))
           | None \<Rightarrow> monitor_loop evs current' progress w)"

definition monitor_indexing_process ::
  "process \<Rightarrow> indexing_progress \<Rightarrow> world \<Rightarrow> (string + unit) \<times> indexing_progress \<times> world" where
  "monitor_indexing_process proc progress w =
     (case monitor_loop (stdout_events proc) ''chunking'' progress w of
        (Inl m, progress', w') \<Rightarrow> (Inl m, progress', w')
      | (Inr u, progress', w') \<Rightarrow>
          if return_code proc \<noteq> 0
          then (Inl (''GraphRAG indexing failed: '' @
                     (if stderr_text proc \<noteq> [] then stderr_text proc else ''Unknown error'')),
                progress', w')
          else (Inr (), progress', w'))"

subsection \<open>The pipeline run\<close>

text \<open>
  The \<open>try\<close> block of \<open>_run_indexing_pipeline\<close>: the outcome, the progress object (mutated
  in place by the source, threaded here) and the state.
\<close>

definition pipeline_body ::
  "pipeline_env \<Rightarrow> file_metadata \<Rightarrow> indexing_progress \<Rightarrow> world
     \<Rightarrow> (string + unit) \<times> indexing_progress \<times> world" where
  "pipeline_body env fm progress w =
     (case update_progress progress ''preparing'' 5 w of (p1, w1) \<Rightarrow>
     (case create_config_file env of Inl m \<Rightarrow> (Inl m, p1, w1) | Inr config_file \<Rightarrow>
     (case update_progress p1 ''copying_file'' 10 w1 of (p2, w2) \<Rightarrow>
     (case extract_text_content env of Inl m \<Rightarrow> (Inl m, p2, w2) | Inr text_content \<Rightarrow>
     (case write_input_file env of Inl m \<Rightarrow> (Inl m, p2, w2) | Inr written \<Rightarrow>
     (case update_progress p2 ''chunking'' 20 w2 of (p3, w3) \<Rightarrow>
     (case create_subprocess_exec env of Inl m \<Rightarrow> (Inl m, p3, w3) | Inr proc \<Rightarrow>
     (case monitor_indexing_process proc p3 w3 of
        (Inl m, p4, w4) \<Rightarrow> (Inl m, p4, w4)
      | (Inr monitored, p4, w4) \<Rightarrow>
     (case update_progress p4 ''finalizing'' 95 w4 of (p5, w5) \<Rightarrow>
     (case artifacts_dir env of
        None \<Rightarrow> (Inl ''Indexing completed but no artifacts found'', p5, w5)
      | Some stats \<Rightarrow>
          (Inr (),
           p5\<lparr>status := ''completed'', progress_percentage := 100,
              completed_at := Some (utcnow env)\<rparr>,
           update_file_status (fid fm) ''completed''
             (\<lambda>m. m\<lparr>output_path := Some (output_dir env @ ''/'' @ fid fm),
                     chunks_count := Some (stat_chunks stats),
                     entities_count := Some (stat_entities stats),
                     relationships_count := Some (stat_relationships stats),
                     communities_count := Some (stat_communities stats)\<rparr>)
             w5)))))))))))"

text \<open>
  \<open>_run_indexing_pipeline\<close>: the \<open>try\<close> block, the \<open>except Exception\<close> handler and the
  \<open>finally\<close> save. The first component is what the coroutine gives the task that runs
  it: \<open>Inl\<close> would be an exception leaving it. The creation of the output directory
  ahead of the \<open>try\<close> block and the writes of the status file and of the registry succeed
  in this model.
\<close>

definition run_indexing_pipeline ::
  "pipeline_env \<Rightarrow> file_metadata \<Rightarrow> indexing_progress \<Rightarrow> world
     \<Rightarrow> (string + unit) \<times> indexing_progress \<times> world" where
  "run_indexing_pipeline env fm progress w =
     (case pipeline_body env fm progress w of
        (Inr done, p, w1) \<Rightarrow> (Inr (), p, save_progress p w1)
      | (Inl m, p, w1) \<Rightarrow>
          (let p' = p\<lparr>status := ''error'', error_message := Some m\<rparr>;
               w2 = update_file_status (fid fm) ''error'' (\<lambda>x. x\<lparr>ferror_message := Some m\<rparr>) w1
           in (Inr (), p', save_progress p' w2)))"

text \<open>The records a run writes to the status file, in order.\<close>

definition written ::
  "pipeline_env \<Rightarrow> file_metadata \<Rightarrow> indexing_progress \<Rightarrow> world \<Rightarrow> indexing_progress list" where
  "written env fm progress w =
     drop (length (saves w)) (saves (snd (snd (run_indexing_pipeline env fm progress w))))"

section \<open>Indexing endpoints (api/indexing.py)\<close>

text \<open>
  The endpoint \<open>get_indexing_status\<close> of the API, written \<open>api_get_indexing_status\<close> to
  tell it from the service method it calls. \<open>now\<close> is the reading of \<open>datetime.utcnow()\<close>.
\<close>

definition api_get_indexing_status :: "datetime \<Rightarrow> world \<Rightarrow> string \<Rightarrow> error + indexing_progress" where
  "api_get_indexing_status now w doc_id =
     (case get_file_by_id w doc_id of
        None \<Rightarrow> Inl (HTTPException 404 ''File not found'')
      | Some fm \<Rightarrow>
          (case get_indexing_status w doc_id of
             Inl e \<Rightarrow> Inl e
           | Inr (Some progress) \<Rightarrow> Inr progress
           | Inr None \<Rightarrow>
               Inr (if fstatus fm = ''uploaded''
                    then \<lparr>file_id = doc_id, status = ''uploaded'', current_step = ''waiting'',
                          progress_percentage = 0, estimated_remaining = None,
                          error_message = None, started_at = None, completed_at = None\<rparr>
                    else if fstatus fm = ''completed''
                    then \<lparr>file_id = doc_id, status = ''completed'', current_step = ''finished'',
                          progress_percentage = 100, estimated_remaining = None,
                          error_message = None, started_at = None, completed_at = Some now\<rparr>
                    else if fstatus fm = ''error''
                    then \<lparr>file_id = doc_id, status = ''error'', current_step = ''failed'',
                          progress_percentage = 0, estimated_remaining = None,
                          error_message = ferror_message fm, started_at = None,
                          completed_at = None\<rparr>
                    else \<lparr>file_id = doc_id, status = ''unknown'', current_step = ''unknown'',
                          progress_percentage = 0, estimated_remaining = None,
                          error_message = None, started_at = None, completed_at = None\<rparr>)))"




section \<open>Graph queries (services/graphrag\_service.py)\<close>

text \<open>
  The directory \<open><output>/<id>/output/artifacts\<close> of a document: each parquet file is
  absent or holds a table, a list of rows. A table that is present is taken to read
  back (\<open>pd.read_parquet\<close> returns it); \<open>pd.concat\<close> of tables is \<open>concat\<close>.
\<close>

record 'row artifacts =
  create_final_entities :: "'row list option"
  create_final_relationships :: "'row list option"
  create_final_text_units :: "'row list option"
  create_final_community_reports :: "'row list option"

text \<open>An entry of the list \<open>_extract_sources_from_context\<close> builds.\<close>

record source =
  type :: string
  content :: string

text \<open>
  The service object as the queries use it: which artifact directories exist
  (\<open>None\<close>: the directory does not), the two search engines of the graphrag library
  (\<open>Inl m\<close>: the search raised an exception with text \<open>m\<close>; \<open>Inr\<close>: the response and the
  \<open>context_data\<close> dictionary, in its order of insertion), and \<open>str\<close> on the values of
  such a dictionary.
\<close>

record ('row, 'v) graphrag_service =
  artifact_dirs :: "string \<Rightarrow> 'row artifacts option"
  local_asearch ::
    "'row list \<Rightarrow> 'row list \<Rightarrow> 'row list \<Rightarrow> string \<Rightarrow> string + string \<times> (string \<times> 'v) list"
  global_asearch ::
    "'row list \<Rightarrow> 'row list \<Rightarrow> string \<Rightarrow> string + string \<times> (string \<times> 'v) list"
  str :: "'v \<Rightarrow> string"

text \<open>
  \<open>_extract_sources_from_context\<close>. The argument has the declared type
  \<open>Dict[str, Any]\<close>, on which the \<open>isinstance\<close> guard holds.
\<close>

fun extract_sources_from_context :: "('v \<Rightarrow> string) \<Rightarrow> (string \<times> 'v) list \<Rightarrow> source list" where
  "extract_sources_from_context to_str [] = []"
| "extract_sources_from_context to_str ((key, val) # items) =
     (if str_in ''source'' (lower key) \<or> str_in ''chunk'' (lower key)
      then \<lparr>type = key,
            content = (if length (to_str val) > 200 then take 200 (to_str val) @ ''...''
                       else to_str val)\<rparr>
           # extract_sources_from_context to_str items
      else extract_sources_from_context to_str items)"

text \<open>
  One of the lists the \<open>for file_id in file_ids\<close> loops of the searches fill: the tables
  of one kind, over the listed documents whose artifact directory exists.
\<close>

fun loaded ::
  "('row artifacts \<Rightarrow> 'row list option) \<Rightarrow> (string \<Rightarrow> 'row artifacts option) \<Rightarrow> string list
     \<Rightarrow> 'row list list" where
  "loaded parquet dirs [] = []"
| "loaded parquet dirs (doc_id # ids) =
     (case dirs doc_id of
        None \<Rightarrow> loaded parquet dirs ids
      | Some artifacts \<Rightarrow>
          (case parquet artifacts of
             None \<Rightarrow> loaded parquet dirs ids
           | Some df \<Rightarrow> df # loaded parquet dirs ids))"

text \<open>The dictionary a search returns; the key \<open>context\<close> may be missing.\<close>

record 'v found =
  found_response :: string
  found_context :: "(string \<times> 'v) list option"
  found_sources :: "source list"

definition local_search ::
  "('row, 'v) graphrag_service \<Rightarrow> string \<Rightarrow> string list \<Rightarrow> string + 'v found" where
  "local_search svc query ids =
     (let all_entities = loaded create_final_entities (artifact_dirs svc) ids;
          all_relationships = loaded create_final_relationships (artifact_dirs svc) ids;
          all_text_units = loaded create_final_text_units (artifact_dirs svc) ids
      in if all_entities = []
         then Inr \<lparr>found_response = ''No indexed data found for the specified files.'',
                   found_context = None, found_sources = []\<rparr>
         else
           (case local_asearch svc (concat all_text_units) (concat all_entities)
                   (concat all_relationships) query of
              Inl m \<Rightarrow> Inl m
            | Inr (answer, items) \<Rightarrow>
                Inr \<lparr>found_response = answer, found_context = Some items,
                     found_sources = extract_sources_from_context (str svc) items\<rparr>))"

definition global_search ::
  "('row, 'v) graphrag_service \<Rightarrow> string \<Rightarrow> string list \<Rightarrow> string + 'v found" where
  "global_search svc query ids =
     (let all_communities = loaded create_final_community_reports (artifact_dirs svc) ids;
          all_entities = loaded create_final_entities (artifact_dirs svc) ids
      in if all_communities = []
         then Inr \<lparr>found_response = ''No community data found for global search.'',
                   found_context = None, found_sources = []\<rparr>
         else
           (case global_asearch svc (concat all_communities) (concat all_entities) query of
              Inl m \<Rightarrow> Inl m
            | Inr (answer, items) \<Rightarrow>
                Inr \<lparr>found_response = answer, found_context = Some items,
                     found_sources = extract_sources_from_context (str svc) items\<rparr>))"

text \<open>
  \<open>GraphRAGQueryResult\<close> and \<open>query_graph\<close>. \<open>t0\<close> and \<open>t1\<close> are the two clock readings,
  in seconds; \<open>Inl m\<close> is the \<open>Exception\<close> the method raises, by its text.
\<close>

record 'v query_result =
  response :: string
  context_data :: "(string \<times> 'v) list"
  sources :: "source list"
  processing_time :: real
  mode :: chat_mode

definition query_graph ::
  "('row, 'v) graphrag_service \<Rightarrow> real \<Rightarrow> real \<Rightarrow> string \<Rightarrow> chat_mode \<Rightarrow> string list
     \<Rightarrow> string + 'v query_result" where
  "query_graph svc t0 t1 query search_mode ids =
     (case (if search_mode = LOCAL then local_search svc query ids
            else global_search svc query ids) of
        Inl m \<Rightarrow> Inl (''Error querying graph: '' @ m)
      | Inr result \<Rightarrow>
          Inr \<lparr>response = found_response result,
               context_data = (case found_context result of Some c \<Rightarrow> c | None \<Rightarrow> []),
               sources = found_sources result,
               processing_time = t1 - t0,
               mode = search_mode\<rparr>)"

section \<open>Chat endpoints (api/chat.py)\<close>

record chat_query_body =
  q_message :: string
  q_mode :: chat_mode
  q_file_ids :: "string list"
  q_conversation_id :: "string option"
  q_stream :: bool

record chat_source =
  cs_file_id :: string
  cs_filename :: string
  chunk_id :: "string option"
  entity_name :: "string option"
  relationship :: "string option"
  relevance_score :: "real option"

record chat_response =
  cr_message_id :: string
  cr_response :: string
  cr_mode :: chat_mode
  cr_sources :: "chat_source list"
  cr_processing_time :: real
  cr_token_usage :: "(string \<times> int) list option"
  cr_conversation_id :: string

record chat_stream_chunk =
  sc_chunk_id :: string
  sc_content :: string
  is_final :: bool
  sc_sources :: "chat_source list"
  sc_error :: "string option"

text \<open>The loop that keeps the ids of the known documents whose status is completed.\<close>

definition valid_file_ids :: "world \<Rightarrow> string list \<Rightarrow> string list" where
  "valid_file_ids w ids =
     filter (\<lambda>doc_id. case get_file_by_id w doc_id of
                        Some fm \<Rightarrow> fstatus fm = ''completed''
                      | None \<Rightarrow> False) ids"

text \<open>
  The \<open>ChatSource\<close> built for one source entry; a source entry has the keys \<open>type\<close> and
  \<open>content\<close> only, so both \<open>get\<close> calls give \<open>None\<close>.
\<close>

definition convert_source :: "world \<Rightarrow> string list \<Rightarrow> source \<Rightarrow> chat_source" where
  "convert_source w valid source_data =
     (let source_file = (case valid of [] \<Rightarrow> None | v # vs \<Rightarrow> get_file_by_id w v)
      in \<lparr>cs_file_id = (case valid of [] \<Rightarrow> ''unknown'' | v # vs \<Rightarrow> v),
          cs_filename = (case source_file of Some f \<Rightarrow> original_filename f | None \<Rightarrow> ''unknown''),
          chunk_id = None, entity_name = None, relationship = None, relevance_score = None\<rparr>)"

text \<open>\<open>uuid1\<close> and \<open>uuid2\<close> are the two values \<open>uuid.uuid4()\<close> may be asked for.\<close>

definition chat_query ::
  "('row, 'v) graphrag_service \<Rightarrow> real \<Rightarrow> real \<Rightarrow> string \<Rightarrow> string \<Rightarrow> world \<Rightarrow> chat_query_body
     \<Rightarrow> error + chat_response" where
  "chat_query svc t0 t1 uuid1 uuid2 w query =
     (if q_mode query = LOCAL \<and> q_file_ids query = []
      then Inl (HTTPException 400 ''Local mode requires at least one file_id'')
      else
        let valid = valid_file_ids w (q_file_ids query)
        in if q_mode query = LOCAL \<and> valid = []
           then Inl (HTTPException 400 ''No valid completed files found for local search'')
           else
             (case query_graph svc t0 t1 (q_message query) (q_mode query)
                     (if q_mode query = LOCAL then valid else []) of
                Inl m \<Rightarrow> Inl (HTTPException 500 (''Chat query failed: '' @ m))
              | Inr result \<Rightarrow>
                  Inr \<lparr>cr_message_id = uuid1,
                       cr_response = response result,
                       cr_mode = q_mode query,
                       cr_sources = map (convert_source w valid) (sources result),
                       cr_processing_time = processing_time result,
                       cr_token_usage = None,
                       cr_conversation_id =
                         (case q_conversation_id query of
                            None \<Rightarrow> uuid2
                          | Some c \<Rightarrow> if c = [] then uuid2 else c)\<rparr>))"

text \<open>The pieces \<open>response_text[i:i+n]\<close> for \<open>i\<close> in \<open>range(0, len(response_text), n)\<close>.\<close>

definition pieces :: "nat \<Rightarrow> string \<Rightarrow> string list" where
  "pieces n s = map (\<lambda>i. take n (drop i s)) (filter (\<lambda>i. i mod n = 0) [0..<length s])"

text \<open>The chunks \<open>generate_stream\<close> yields, in order.\<close>

definition generate_stream ::
  "('row, 'v) graphrag_service \<Rightarrow> real \<Rightarrow> real \<Rightarrow> string \<Rightarrow> world \<Rightarrow> string list \<Rightarrow> chat_query_body
     \<Rightarrow> chat_stream_chunk list" where
  "generate_stream svc t0 t1 uuid1 w valid query =
     \<lparr>sc_chunk_id = uuid1, sc_content = [], is_final = False, sc_sources = [], sc_error = None\<rparr>
     # (case query_graph svc t0 t1 (q_message query) (q_mode query)
               (if q_mode query = LOCAL then valid else []) of
          Inl m \<Rightarrow>
            [\<lparr>sc_chunk_id = uuid1, sc_content = [], is_final = True, sc_sources = [],
              sc_error = Some m\<rparr>]
        | Inr result \<Rightarrow>
            map (\<lambda>chunk_text. \<lparr>sc_chunk_id = uuid1, sc_content = chunk_text, is_final = False,
                               sc_sources = [], sc_error = None\<rparr>)
              (pieces 50 (response result))
            @ [\<lparr>sc_chunk_id = uuid1, sc_content = [], is_final = True,
                sc_sources = map (convert_source w valid) (sources result),
                sc_error = None\<rparr>])"

definition chat_stream ::
  "('row, 'v) graphrag_service \<Rightarrow> real \<Rightarrow> real \<Rightarrow> string \<Rightarrow> world \<Rightarrow> chat_query_body
     \<Rightarrow> error + chat_stream_chunk list" where
  "chat_stream svc t0 t1 uuid1 w query =
     (if q_mode query = LOCAL \<and> q_file_ids query = []
      then Inl (HTTPException 400 ''Local mode requires at least one file_id'')
      else
        let valid = valid_file_ids w (q_file_ids query)
        in if q_mode query = LOCAL \<and> valid = []
           then Inl (HTTPException 400 ''No valid completed files found for local search'')
           else Inr (generate_stream svc t0 t1 uuid1 w valid query))"

section \<open>Projections of a pipeline run\<close>

text \<open>
  The functions of this section are read off the ones above for the proofs: what a run
  pushes and how it ends, without the state. The lemmas of the next sections show that
  they are what \<open>monitor_loop\<close>, \<open>monitor_indexing_process\<close> and \<open>pipeline_body\<close> compute.
  \<open>stamp p (step, percentage)\<close> is the record \<open>_update_progress\<close> saves.
\<close>

definition stamp :: "indexing_progress \<Rightarrow> string \<times> real \<Rightarrow> indexing_progress" where
  "stamp p u = p\<lparr>current_step := fst u, progress_percentage := snd u\<rparr>"

fun monitor_updates :: "read_event list \<Rightarrow> string \<Rightarrow> (string \<times> real) list" where
  "monitor_updates [] current = []"
| "monitor_updates (Timeout exited # evs) current =
     (if exited then [] else monitor_updates evs current)"
| "monitor_updates (Undecodable m # evs) current = []"
| "monitor_updates (Line line # evs) current =
     (if line = [] then []
      else
        let current' = classify_step (strip line) current
        in case step_progress current' of
             Some percentage \<Rightarrow> (current', percentage) # monitor_updates evs current'
           | None \<Rightarrow> monitor_updates evs current')"

fun monitor_outcome :: "read_event list \<Rightarrow> string + unit" where
  "monitor_outcome [] = Inr ()"
| "monitor_outcome (Timeout exited # evs) = (if exited then Inr () else monitor_outcome evs)"
| "monitor_outcome (Undecodable m # evs) = Inl m"
| "monitor_outcome (Line line # evs) = (if line = [] then Inr () else monitor_outcome evs)"

definition process_outcome :: "process \<Rightarrow> string + unit" where
  "process_outcome proc =
     (case monitor_outcome (stdout_events proc) of
        Inl m \<Rightarrow> Inl m
      | Inr u \<Rightarrow>
          if return_code proc \<noteq> 0
          then Inl (''GraphRAG indexing failed: '' @
                    (if stderr_text proc \<noteq> [] then stderr_text proc else ''Unknown error''))
          else Inr ())"

definition body_outcome :: "pipeline_env \<Rightarrow> string + unit" where
  "body_outcome env =
     (case create_config_file env of Inl m \<Rightarrow> Inl m | Inr config_file \<Rightarrow>
     (case extract_text_content env of Inl m \<Rightarrow> Inl m | Inr text_content \<Rightarrow>
     (case write_input_file env of Inl m \<Rightarrow> Inl m | Inr u \<Rightarrow>
     (case create_subprocess_exec env of Inl m \<Rightarrow> Inl m | Inr proc \<Rightarrow>
     (case process_outcome proc of Inl m \<Rightarrow> Inl m | Inr v \<Rightarrow>
     (case artifacts_dir env of
        None \<Rightarrow> Inl ''Indexing completed but no artifacts found''
      | Some stats \<Rightarrow> Inr ()))))))"

definition body_updates :: "pipeline_env \<Rightarrow> (string \<times> real) list" where
  "body_updates env =
     (''preparing'', 5) #
     (case create_config_file env of Inl m \<Rightarrow> [] | Inr config_file \<Rightarrow>
      (''copying_file'', 10) #
      (case extract_text_content env of Inl m \<Rightarrow> [] | Inr text_content \<Rightarrow>
      (case write_input_file env of Inl m \<Rightarrow> [] | Inr u \<Rightarrow>
       (''chunking'', 20) #
       (case create_subprocess_exec env of Inl m \<Rightarrow> [] | Inr proc \<Rightarrow>
          monitor_updates (stdout_events proc) ''chunking'' @
          (case process_outcome proc of
             Inl m \<Rightarrow> []
           | Inr v \<Rightarrow> [(''finalizing'', 95)])))))"




section \<open>The checkpoints as the specification lists them\<close>

text \<open>
  The table of the specification, by its words: preparing 5, copying\_file 10, chunking 20,
  entity\_extraction 60, relationship\_extraction 80, community\_detection 90, finalizing 95,
  completed 100. A written record follows it when its percentage is the one listed for
  its step, or the one listed for \<open>completed\<close> once that is its status.
\<close>

definition preset_checkpoints :: "string \<rightharpoonup> real" where
  "preset_checkpoints =
     [''preparing'' \<mapsto> 5, ''copying_file'' \<mapsto> 10, ''chunking'' \<mapsto> 20,
      ''entity_extraction'' \<mapsto> 60, ''relationship_extraction'' \<mapsto> 80,
      ''community_detection'' \<mapsto> 90, ''finalizing'' \<mapsto> 95, ''completed'' \<mapsto> 100]"

definition follows_presets :: "indexing_progress \<Rightarrow> bool" where
  "follows_presets p =
     (if status p = ''completed''
      then preset_checkpoints ''completed'' = Some (progress_percentage p)
      else preset_checkpoints (current_step p) = Some (progress_percentage p))"

section \<open>Example inputs\<close>

text \<open>
  A registry with the single document \<open>doc1\<close> in a given status, the record
  \<open>start_indexing\<close> builds for it, a run whose collaborators all succeed around a child
  process with the given output, exit code and standard error, and a service whose
  only artifact directory holds relationships and text units.
\<close>

definition example_file :: "string \<Rightarrow> file_metadata" where
  "example_file st =
     \<lparr>fid = ''doc1'', filename = ''doc1.txt'', original_filename = ''notes.txt'', fsize = 12,
      content_type = ''text/plain'', upload_date = 0, fstatus = st,
      ferror_message = (if st = ''error'' then Some ''boom'' else None),
      chunks_count = None, entities_count = None,
      relationships_count = None, communities_count = None,
      file_path = ''uploads/doc1.txt'', output_path = None\<rparr>"

definition example_world :: "string \<Rightarrow> world" where
  "example_world st =
     \<lparr>files = [''doc1'' \<mapsto> example_file st], status_files = Map.empty, saves = [], tasks = []\<rparr>"

definition example_progress :: indexing_progress where
  "example_progress =
     \<lparr>file_id = ''doc1'', status = ''indexing'', current_step = ''preparing'',
      progress_percentage = 0, estimated_remaining = None,
      error_message = None, started_at = Some 1, completed_at = None\<rparr>"

definition example_env :: "read_event list \<Rightarrow> int \<Rightarrow> string \<Rightarrow> pipeline_env" where
  "example_env events code err =
     \<lparr>output_dir = ''out'', create_config_file = Inr ''out/doc1/settings.yml'',
      extract_text_content = Inr ''hello'', write_input_file = Inr (),
      create_subprocess_exec =
        Inr \<lparr>stdout_events = events, return_code = code, stderr_text = err\<rparr>,
      artifacts_dir = Some \<lparr>stat_chunks = 1, stat_entities = 2, stat_relationships = 3,
                            stat_communities = 4\<rparr>,
      utcnow = 9\<rparr>"

definition example_service :: "(nat, string) graphrag_service" where
  "example_service =
     \<lparr>artifact_dirs =
        [''doc1'' \<mapsto> \<lparr>create_final_entities = None, create_final_relationships = Some [1],
                        create_final_text_units = Some [2, 3],
                        create_final_community_reports = None\<rparr>],
      local_asearch = (\<lambda>text_units entities relationships query. Inr (''local answer'', [])),
      global_asearch = (\<lambda>communities entities query. Inr (''global answer'', [])),
      str = (\<lambda>v. v)\<rparr>"

lemmas run_example_defs =
  written_def run_indexing_pipeline_def pipeline_body_def example_env_def example_file_def
  example_progress_def example_world_def update_progress_def save_progress_def
  monitor_indexing_process_def classify_step_def step_progress_def strip_def isspace_def
  lower_def lower_char_def update_file_status_def Let_def

section \<open>Lemmas on the pipeline\<close>

lemma stamp_stamp [simp]: "stamp (stamp p a) b = stamp p b"
  by (simp add: stamp_def)

lemma stamp_stamp_fun [simp]: "stamp (stamp p a) = stamp p"
  by (rule ext) simp

lemma stamp_fields [simp]:
  "status (stamp p u) = status p" "file_id (stamp p u) = file_id p"
  "error_message (stamp p u) = error_message p"
  "current_step (stamp p u) = fst u" "progress_percentage (stamp p u) = snd u"
  by (simp_all add: stamp_def)

lemma update_progress_eq:
  "update_progress p s pc w = (stamp p (s, pc), save_progress (stamp p (s, pc)) w)"
  by (simp add: update_progress_def stamp_def Let_def)

lemma save_progress_fields [simp]:
  "saves (save_progress p w) = saves w @ [p]"
  "files (save_progress p w) = files w"
  "tasks (save_progress p w) = tasks w"
  "status_files (save_progress p w) = (status_files w)(file_id p \<mapsto> Dumped p)"
  by (simp_all add: save_progress_def)

lemma update_file_status_fields [simp]:
  "saves (update_file_status d s k w) = saves w"
  "status_files (update_file_status d s k w) = status_files w"
  by (simp_all add: update_file_status_def split: option.splits)

lemma monitor_loop_outcome: "fst (monitor_loop evs cur p w) = monitor_outcome evs"
  by (induction evs cur p w rule: monitor_loop.induct)
     (auto simp: Let_def split: option.splits)

lemma monitor_loop_saves:
  "saves (snd (snd (monitor_loop evs cur p w))) = saves w @ map (stamp p) (monitor_updates evs cur)"
  by (induction evs cur p w rule: monitor_loop.induct)
     (auto simp: update_progress_eq Let_def split: option.splits)

lemma monitor_loop_files: "files (snd (snd (monitor_loop evs cur p w))) = files w"
  by (induction evs cur p w rule: monitor_loop.induct)
     (auto simp: update_progress_eq Let_def split: option.splits)

lemma monitor_loop_progress:
  "fst (snd (monitor_loop evs cur p w)) =
     (if monitor_updates evs cur = [] then p else stamp p (last (monitor_updates evs cur)))"
  by (induction evs cur p w rule: monitor_loop.induct)
     (auto simp: update_progress_eq Let_def split: option.splits)

lemma monitor_loop_eq:
  "monitor_loop evs cur p w =
     (monitor_outcome evs,
      (if monitor_updates evs cur = [] then p else stamp p (last (monitor_updates evs cur))),
      snd (snd (monitor_loop evs cur p w)))"
  using monitor_loop_outcome [of evs cur p w] monitor_loop_progress [of evs cur p w]
  by (cases "monitor_loop evs cur p w") simp

lemma monitor_indexing_process_eq:
  "monitor_indexing_process proc p w =
     (process_outcome proc,
      (if monitor_updates (stdout_events proc) ''chunking'' = [] then p
       else stamp p (last (monitor_updates (stdout_events proc) ''chunking''))),
      snd (snd (monitor_loop (stdout_events proc) ''chunking'' p w)))"
  unfolding monitor_indexing_process_def process_outcome_def
  by (subst monitor_loop_eq) (simp split: sum.splits)

lemma monitor_updates_table:
  "u \<in> set (monitor_updates evs cur) \<Longrightarrow> step_progress (fst u) = Some (snd u)"
  by (induction evs cur rule: monitor_updates.induct)
     (auto simp: Let_def split: option.splits if_splits)

lemma step_progress_cases:
  "step_progress s = Some pc \<Longrightarrow>
     (s, pc) \<in> {(''chunking'', 30), (''entity_extraction'', 60),
                (''relationship_extraction'', 80), (''community_detection'', 90)}"
  by (auto simp: step_progress_def split: if_splits)

lemma monitor_updates_cases:
  "u \<in> set (monitor_updates evs cur) \<Longrightarrow>
     u \<in> {(''chunking'', 30), (''entity_extraction'', 60),
          (''relationship_extraction'', 80), (''community_detection'', 90)}"
  using step_progress_cases [OF monitor_updates_table, of u evs cur] by simp

lemma body_eq:
  "pipeline_body env fm p w =
     (body_outcome env,
      (case body_outcome env of
         Inl m \<Rightarrow> stamp p (last (body_updates env))
       | Inr u \<Rightarrow> (stamp p (''finalizing'', 95))
                    \<lparr>status := ''completed'', progress_percentage := 100,
                     completed_at := Some (utcnow env)\<rparr>),
      snd (snd (pipeline_body env fm p w)))"
  unfolding pipeline_body_def body_updates_def body_outcome_def update_progress_eq
    monitor_indexing_process_eq
  by (auto split: sum.splits option.splits)

lemma body_saves:
  "saves (snd (snd (pipeline_body env fm p w))) = saves w @ map (stamp p) (body_updates env)"
  unfolding pipeline_body_def body_updates_def update_progress_eq monitor_indexing_process_eq
  by (simp add: monitor_loop_saves split: sum.splits option.splits)

lemma body_files:
  "body_outcome env = Inl m \<Longrightarrow> files (snd (snd (pipeline_body env fm p w))) = files w"
  unfolding pipeline_body_def body_outcome_def update_progress_eq monitor_indexing_process_eq
  by (simp add: monitor_loop_files split: sum.splits option.splits)

lemma body_updates_nonempty: "body_updates env \<noteq> []"
  by (simp add: body_updates_def)

lemma body_updates_table:
  "u \<in> set (body_updates env) \<Longrightarrow>
     u \<in> {(''preparing'', 5), (''copying_file'', 10), (''chunking'', 20), (''chunking'', 30),
          (''entity_extraction'', 60), (''relationship_extraction'', 80),
          (''community_detection'', 90), (''finalizing'', 95)}"
  unfolding body_updates_def
  by (auto split: sum.splits dest!: monitor_updates_cases)


lemma body_split:
  obtains w' where "pipeline_body env fm p w =
     (body_outcome env,
      (case body_outcome env of
         Inl m \<Rightarrow> stamp p (last (body_updates env))
       | Inr u \<Rightarrow> (stamp p (''finalizing'', 95))
                    \<lparr>status := ''completed'', progress_percentage := 100,
                     completed_at := Some (utcnow env)\<rparr>),
      w')"
    and "saves w' = saves w @ map (stamp p) (body_updates env)"
    and "\<And>m. body_outcome env = Inl m \<Longrightarrow> files w' = files w"
  using body_eq [of env fm p w] body_saves [of env fm p w] body_files [of env _ fm p w]
  by blast

lemma run_eq:
  "run_indexing_pipeline env fm p w =
     (Inr (),
      (case body_outcome env of
         Inl m \<Rightarrow> (stamp p (last (body_updates env)))\<lparr>status := ''error'', error_message := Some m\<rparr>
       | Inr u \<Rightarrow> (stamp p (''finalizing'', 95))
                    \<lparr>status := ''completed'', progress_percentage := 100,
                     completed_at := Some (utcnow env)\<rparr>),
      snd (snd (run_indexing_pipeline env fm p w)))"
proof -
  obtain w' where b: "pipeline_body env fm p w =
     (body_outcome env,
      (case body_outcome env of
         Inl m \<Rightarrow> stamp p (last (body_updates env))
       | Inr u \<Rightarrow> (stamp p (''finalizing'', 95))
                    \<lparr>status := ''completed'', progress_percentage := 100,
                     completed_at := Some (utcnow env)\<rparr>),
      w')"
    by (rule body_split)
  show ?thesis
    by (cases "body_outcome env") (simp_all add: run_indexing_pipeline_def b Let_def)
qed

lemma run_written:
  "written env fm p w
     = map (stamp p) (body_updates env) @ [fst (snd (run_indexing_pipeline env fm p w))]"
proof -
  obtain w' where b: "pipeline_body env fm p w =
     (body_outcome env,
      (case body_outcome env of
         Inl m \<Rightarrow> stamp p (last (body_updates env))
       | Inr u \<Rightarrow> (stamp p (''finalizing'', 95))
                    \<lparr>status := ''completed'', progress_percentage := 100,
                     completed_at := Some (utcnow env)\<rparr>),
      w')"
    and s: "saves w' = saves w @ map (stamp p) (body_updates env)"
    by (rule body_split)
  show ?thesis
    by (cases "body_outcome env") (simp_all add: written_def run_indexing_pipeline_def b s Let_def)
qed



section \<open>Lemmas on the queries\<close>


lemma pieces_short: "s \<noteq> [] \<Longrightarrow> length s \<le> n \<Longrightarrow> pieces n s = [s]"
proof -
  assume s: "s \<noteq> []" and n: "length s \<le> n"
  have "filter (\<lambda>i. i mod n = 0) [0..<length s] = [0]"
  proof -
    have "[0..<length s] = 0 # [1..<length s]" using s by (simp add: upt_rec)
    moreover have "filter (\<lambda>i. i mod n = 0) [1..<length s] = []"
      using n by (auto simp: filter_empty_conv)
    ultimately show ?thesis by simp
  qed
  then show ?thesis using n by (simp add: pieces_def)
qed

section \<open>Progress of a run\<close>




section \<open>Cancel and retry\<close>



section \<open>Failures of a run\<close>



section \<open>Status of a document without a progress record\<close>

text \<open>
  C4. For a document of the registry with no stored progress record, the status
  endpoint answers with a record made from the document's status: \<open>uploaded\<close> gives 0,
  \<open>completed\<close> gives 100 with step \<open>finished\<close>, \<open>error\<close> gives 0 with the document's error
  message, and any other status gives the record \<open>unknown\<close> at 0.
\<close>

theorem synthetic_progress:
  assumes "get_file_by_id w doc_id = Some fm" and "status_files w doc_id = None"
  shows "\<exists>p. api_get_indexing_status now w doc_id = Inr p \<and> file_id p = doc_id \<and>
           (fstatus fm = ''uploaded'' \<longrightarrow>
              status p = ''uploaded'' \<and> progress_percentage p = 0) \<and>
           (fstatus fm = ''completed'' \<longrightarrow>
              status p = ''completed'' \<and> progress_percentage p = 100
              \<and> current_step p = ''finished'') \<and>
           (fstatus fm = ''error'' \<longrightarrow>
              status p = ''error'' \<and> progress_percentage p = 0
              \<and> error_message p = ferror_message fm) \<and>
           (fstatus fm \<notin> {''uploaded'', ''completed'', ''error''} \<longrightarrow>
              status p = ''unknown'' \<and> current_step p = ''unknown''
              \<and> progress_percentage p = 0)"
  using assms by (simp add: api_get_indexing_status_def get_indexing_status_def)

theorem synthetic_progress_witness:
  "(\<exists>p. api_get_indexing_status 7 (example_world ''uploaded'') ''doc1'' = Inr p
        \<and> status p = ''uploaded'' \<and> progress_percentage p = 0)
   \<and> (\<exists>p. api_get_indexing_status 7 (example_world ''completed'') ''doc1'' = Inr p
        \<and> progress_percentage p = 100 \<and> current_step p = ''finished'')
   \<and> (\<exists>p. api_get_indexing_status 7 (example_world ''error'') ''doc1'' = Inr p
        \<and> progress_percentage p = 0 \<and> error_message p = Some ''boom'')
   \<and> (\<exists>p. api_get_indexing_status 7 (example_world ''cancelled'') ''doc1'' = Inr p
        \<and> status p = ''unknown'' \<and> progress_percentage p = 0)"
  using synthetic_progress [of "example_world ''uploaded''" "''doc1''" "example_file ''uploaded''" 7]
    synthetic_progress [of "example_world ''completed''" "''doc1''" "example_file ''completed''" 7]
    synthetic_progress [of "example_world ''error''" "''doc1''" "example_file ''error''" 7]
    synthetic_progress [of "example_world ''cancelled''" "''doc1''" "example_file ''cancelled''" 7]
  by (auto simp: example_world_def example_file_def get_file_by_id_def)

section \<open>Checkpoints\<close>

text \<open>
  C5 as it is stated does not hold. On a first log line that names no step the monitor
  pushes step \<open>chunking\<close> at 30, where the table of the specification has 20: the fourth
  record of this run.
\<close>

theorem chunking_checkpoint_counterexample:
  "\<not> list_all follows_presets
       (written (example_env [Line ''Loading input''] 0 [])
          (example_file ''indexing'') example_progress (example_world ''indexing''))
   \<and> current_step (written (example_env [Line ''Loading input''] 0 [])
          (example_file ''indexing'') example_progress (example_world ''indexing'') ! 3) = ''chunking''
   \<and> progress_percentage (written (example_env [Line ''Loading input''] 0 [])
          (example_file ''indexing'') example_progress (example_world ''indexing'') ! 3) = 30
   \<and> preset_checkpoints ''chunking'' = Some 20"
  by (simp add: follows_presets_def preset_checkpoints_def run_example_defs)

text \<open>
  C5, amended. Every record a run writes either has status \<open>completed\<close> and percentage
  100, or pairs its step with one of: preparing 5, copying\_file 10, chunking 20 (pushed
  by the pipeline) or 30 (pushed by the monitor), entity\_extraction 60,
  relationship\_extraction 80, community\_detection 90, finalizing 95. The records the
  monitor writes use chunking 30, entity\_extraction 60, relationship\_extraction 80 and
  community\_detection 90 only.
\<close>

theorem pipeline_checkpoints:
  assumes "status progress = ''indexing''"
  shows "(\<forall>q \<in> set (written env fm progress w).
            (status q = ''completed'' \<and> progress_percentage q = 100)
          \<or> (status q \<noteq> ''completed'' \<and>
             (current_step q, progress_percentage q)
               \<in> {(''preparing'', 5), (''copying_file'', 10), (''chunking'', 20), (''chunking'', 30),
                  (''entity_extraction'', 60), (''relationship_extraction'', 80),
                  (''community_detection'', 90), (''finalizing'', 95)}))
         \<and> (\<forall>q \<in> set (drop (length (saves w))
                        (saves (snd (snd (monitor_indexing_process proc progress w))))).
              (current_step q, progress_percentage q)
                \<in> {(''chunking'', 30), (''entity_extraction'', 60),
                   (''relationship_extraction'', 80), (''community_detection'', 90)})"
proof (intro conjI ballI)
  fix q assume "q \<in> set (written env fm progress w)"
  then consider u where "u \<in> set (body_updates env)" "q = stamp progress u"
    | "q = fst (snd (run_indexing_pipeline env fm progress w))"
    by (auto simp: run_written)
  then show "(status q = ''completed'' \<and> progress_percentage q = 100)
          \<or> (status q \<noteq> ''completed'' \<and>
             (current_step q, progress_percentage q)
               \<in> {(''preparing'', 5), (''copying_file'', 10), (''chunking'', 20), (''chunking'', 30),
                  (''entity_extraction'', 60), (''relationship_extraction'', 80),
                  (''community_detection'', 90), (''finalizing'', 95)})"
  proof cases
    case 1
    then show ?thesis using body_updates_table [of u env] assms by (cases u) auto
  next
    case 2
    have l: "last (body_updates env) \<in> set (body_updates env)"
      by (simp add: body_updates_nonempty)
    show ?thesis
    proof (cases "body_outcome env")
      case (Inl m)
      then have "q = (stamp progress (last (body_updates env)))
                       \<lparr>status := ''error'', error_message := Some m\<rparr>"
        using 2 by (subst (asm) run_eq) simp
      then show ?thesis
        using body_updates_table [OF l] by (cases "last (body_updates env)") auto
    next
      case (Inr u)
      then have "q = (stamp progress (''finalizing'', 95))
                    \<lparr>status := ''completed'', progress_percentage := 100,
                     completed_at := Some (utcnow env)\<rparr>"
        using 2 by (subst (asm) run_eq) simp
      then show ?thesis by simp
    qed
  qed
next
  fix q
  assume "q \<in> set (drop (length (saves w))
                        (saves (snd (snd (monitor_indexing_process proc progress w)))))"
  then have "q \<in> stamp progress ` set (monitor_updates (stdout_events proc) ''chunking'')"
    by (simp add: monitor_indexing_process_eq monitor_loop_saves)
  then show "(current_step q, progress_percentage q)
                \<in> {(''chunking'', 30), (''entity_extraction'', 60),
                   (''relationship_extraction'', 80), (''community_detection'', 90)}"
    using monitor_updates_cases by fastforce
qed

theorem pipeline_checkpoints_witness:
  "list_all (\<lambda>q. (status q = ''completed'' \<and> progress_percentage q = 100)
          \<or> (status q \<noteq> ''completed'' \<and>
             (current_step q, progress_percentage q)
               \<in> {(''preparing'', 5), (''copying_file'', 10), (''chunking'', 20), (''chunking'', 30),
                  (''entity_extraction'', 60), (''relationship_extraction'', 80),
                  (''community_detection'', 90), (''finalizing'', 95)}))
     (written (example_env [Line ''Loading input''] 0 [])
        (example_file ''indexing'') example_progress (example_world ''indexing''))
   \<and> length (written (example_env [Line ''Loading input''] 0 [])
        (example_file ''indexing'') example_progress (example_world ''indexing'')) = 6"
proof -
  have s: "status example_progress = ''indexing''"
    by (simp add: example_progress_def)
  have l: "length (written (example_env [Line ''Loading input''] 0 [])
        (example_file ''indexing'') example_progress (example_world ''indexing'')) = 6"
    by (simp add: run_example_defs)
  show ?thesis
    using pipeline_checkpoints [OF s, of "example_env [Line ''Loading input''] 0 []"
        "example_file ''indexing''" "example_world ''indexing''"] l
    by (simp add: list_all_iff)
qed

section \<open>Searches without data\<close>





section \<open>Reading a progress record back\<close>



section \<open>Sources of an answer\<close>

text \<open>
  C9. Every source entry extracted from a \<open>context_data\<close> dictionary comes from one of
  its keys that contains \<open>source\<close> or \<open>chunk\<close> (the key is compared in lower case, as the
  source does); its content is the string form of the value, cut to its first 200
  characters followed by the three-character ellipsis when it is longer than 200 and
  whole otherwise, so at most 203 characters.
\<close>

theorem extracted_sources_truncated:
  assumes "e \<in> set (extract_sources_from_context to_str items)"
  shows "\<exists>key val. (key, val) \<in> set items \<and> type e = key
           \<and> (str_in ''source'' (lower key) \<or> str_in ''chunk'' (lower key))
           \<and> content e = (if length (to_str val) > 200 then take 200 (to_str val) @ ''...''
                           else to_str val)
           \<and> length (content e) \<le> 203"
  using assms
proof (induction items)
  case Nil
  then show ?case by simp
next
  case (Cons item items)
  obtain key val where item: "item = (key, val)" by (cases item)
  show ?case
  proof (cases "e \<in> set (extract_sources_from_context to_str items)")
    case True
    then show ?thesis using Cons.IH by auto
  next
    case False
    with Cons.prems item
    have k: "str_in ''source'' (lower key) \<or> str_in ''chunk'' (lower key)"
      and e: "e = \<lparr>type = key,
                   content = (if length (to_str val) > 200 then take 200 (to_str val) @ ''...''
                              else to_str val)\<rparr>"
      by (auto split: if_splits)
    have "length (content e) \<le> 203" by (simp add: e)
    with k e item show ?thesis by auto
  qed
qed

theorem extracted_sources_truncated_witness:
  "extract_sources_from_context (\<lambda>v. v)
     [(''Source_Docs'', replicate 201 CHR ''a''), (''entities'', ''x''), (''text_chunks'', ''short'')]
   = [\<lparr>type = ''Source_Docs'', content = replicate 200 CHR ''a'' @ ''...''\<rparr>,
      \<lparr>type = ''text_chunks'', content = ''short''\<rparr>]
   \<and> length (replicate 200 CHR ''a'' @ ''...'') \<le> 203"
proof -
  have x: "extract_sources_from_context (\<lambda>v. v)
     [(''Source_Docs'', replicate 201 CHR ''a''), (''entities'', ''x''), (''text_chunks'', ''short'')]
   = [\<lparr>type = ''Source_Docs'', content = replicate 200 CHR ''a'' @ ''...''\<rparr>,
      \<lparr>type = ''text_chunks'', content = ''short''\<rparr>]"
    by (simp add: lower_def lower_char_def)
  have "\<lparr>type = ''Source_Docs'', content = replicate 200 CHR ''a'' @ ''...''\<rparr>
          \<in> set (extract_sources_from_context (\<lambda>v. v)
     [(''Source_Docs'', replicate 201 CHR ''a''), (''entities'', ''x''), (''text_chunks'', ''short'')])"
    by (simp only: x) simp
  from extracted_sources_truncated [OF this] x show ?thesis by simp
qed

section \<open>Chat in global mode\<close>

text \<open>
  C10. In global mode both chat endpoints call \<open>query_graph\<close> with the empty list of
  ids, whatever documents the registry and the artifact directories hold; the global
  search then loads no table, and the answer is the fixed text that no community data
  was found, with no sources.
\<close>

theorem global_chat_has_no_data:
  "query_graph svc t0 t1 (q_message query) GLOBAL [] 
     = Inr \<lparr>response = ''No community data found for global search.'',
            context_data = [], sources = [], processing_time = t1 - t0, mode = GLOBAL\<rparr>
   \<and> (\<exists>r. chat_query svc t0 t1 uuid1 uuid2 w (query\<lparr>q_mode := GLOBAL\<rparr>) = Inr r
          \<and> cr_response r = ''No community data found for global search.''
          \<and> cr_sources r = [])
   \<and> chat_stream svc t0 t1 uuid1 w (query\<lparr>q_mode := GLOBAL\<rparr>)
       = Inr [\<lparr>sc_chunk_id = uuid1, sc_content = [], is_final = False, sc_sources = [],
               sc_error = None\<rparr>,
              \<lparr>sc_chunk_id = uuid1, sc_content = ''No community data found for global search.'',
               is_final = False, sc_sources = [], sc_error = None\<rparr>,
              \<lparr>sc_chunk_id = uuid1, sc_content = [], is_final = True, sc_sources = [],
               sc_error = None\<rparr>]"
proof -
  have q: "query_graph svc t0 t1 m GLOBAL []
     = Inr \<lparr>response = ''No community data found for global search.'',
            context_data = [], sources = [], processing_time = t1 - t0, mode = GLOBAL\<rparr>" for m
    by (simp add: query_graph_def global_search_def)
  have p: "pieces 50 ''No community data found for global search.''
             = [''No community data found for global search.'']"
    by (rule pieces_short) simp_all
  show ?thesis
    by (simp add: q p chat_query_def chat_stream_def generate_stream_def Let_def)
qed

theorem global_chat_has_no_data_witness:
  "\<exists>r. chat_query example_service 0 1 ''m1'' ''c1'' (example_world ''completed'')
         \<lparr>q_message = ''who is X'', q_mode = GLOBAL, q_file_ids = [''doc1''],
          q_conversation_id = None, q_stream = False\<rparr> = Inr r
       \<and> cr_response r = ''No community data found for global search.''
       \<and> cr_sources r = []"
  using global_chat_has_no_data [of example_service 0 1
      "\<lparr>q_message = ''who is X'', q_mode = GLOBAL, q_file_ids = [''doc1''],
        q_conversation_id = None, q_stream = False\<rparr>" "''m1''" "''c1''"
      "example_world ''completed''"]
  by simp

end
